theory Spec2Isabelle
  imports Complex_Main "HOL-Library.Multiset" "HOL-Library.Option_ord" "HOL-Library.Log_Nat"
begin

section \<open>Values of the JavaScript runtime\<close>

text \<open>
  The handlers of \<^verbatim>\<open>routes/orders.js\<close>, \<^verbatim>\<open>routes/products.js\<close> and
  \<^verbatim>\<open>routes/reports.js\<close> read duck-typed fields of a JSON body. A field is absent
  (\<open>JUndefined\<close>), \<open>null\<close>, a boolean, a number or a string. A number is an IEEE double
  in the source; here it is the rational value of that double, \<open>NaN\<close> is the value \<open>None\<close>
  of an option, and a product of two numbers is rounded to the nearest double as the
  runtime does. Infinities (a product beyond the range of doubles), arrays and objects
  are not modelled.
\<close>

datatype jsval = JUndefined | JNull | JBool bool | JNum rat | JStr string

subsection \<open>Doubles\<close>

text \<open>
  \<open>double_of x\<close> is the double nearest to the rational \<open>x\<close>, the one with an even
  significand at a tie: 53 significant bits at the exponent of \<open>x\<close>, and the fixed spacing
  \<open>2^-1074\<close> below \<open>2^-1022\<close>. It is what \<open>JSON.parse\<close> and \<open>parseFloat\<close> make of a decimal
  text, and what each arithmetic operation makes of its exact result.
\<close>

definition pow2 :: "int \<Rightarrow> rat" where
  "pow2 e = (if 0 \<le> e then 2 ^ nat e else 1 / 2 ^ nat (- e))"

text \<open>The exponent of a positive rational: the largest \<open>e\<close> with \<open>pow2 e \<le> x\<close>.\<close>

definition ilog2 :: "rat \<Rightarrow> int" where
  "ilog2 x =
     (let d = bitlen (fst (quotient_of x)) - bitlen (snd (quotient_of x))
      in if pow2 d \<le> x then d else d - 1)"

definition nearest_even :: "rat \<Rightarrow> int" where
  "nearest_even m =
     (let f = \<lfloor>m\<rfloor>; r = m - of_int f
      in if r < 1 / 2 then f else if 1 / 2 < r then f + 1 else if even f then f else f + 1)"

definition double_of :: "rat \<Rightarrow> rat" where
  "double_of x =
     (if x = 0 then 0
      else let e = max (ilog2 \<bar>x\<bar>) (- 1022) - 52
           in of_int (nearest_even (x / pow2 e)) * pow2 e)"

text \<open>The number that a JSON body carries for the decimal text \<open>r\<close>.\<close>

definition json_number :: "rat \<Rightarrow> jsval" where
  "json_number r = JNum (double_of r)"

text \<open>\<open>a * b\<close> on two numbers.\<close>

definition double_times :: "rat \<Rightarrow> rat \<Rightarrow> rat" where
  "double_times a b = double_of (a * b)"

text \<open>
  An exact result of this size or beyond is \<open>Infinity\<close> in the source; \<open>double_of\<close> is the
  source's value below it.
\<close>

definition in_double_range :: "rat \<Rightarrow> bool" where
  "in_double_range x \<longleftrightarrow> \<bar>x\<bar> < pow2 1024 - pow2 970"

text \<open>
  What the runtime's own conversions make of a string (\<open>Number(s)\<close>, \<open>parseFloat(s)\<close>),
  \<open>parseInt\<close>, the text that the store's TEXT affinity makes of a value that is not a
  string, and the number that the store's numeric affinity makes of a bound text (by its
  own rules, which are not those of \<open>Number\<close>), are not code of this repository: the
  handlers take them as a parameter, and every theorem below holds for each choice of
  them.
\<close>

record js_builtins =
  str_number :: "string \<Rightarrow> rat option"
  str_parseFloat :: "string \<Rightarrow> rat option"
  parseInt :: "jsval \<Rightarrow> int option"
  text_of :: "jsval \<Rightarrow> string"
  sql_number :: "string \<Rightarrow> rat option"

text \<open>\<open>!v\<close> is true exactly when \<open>v\<close> is falsy.\<close>

fun truthy :: "jsval \<Rightarrow> bool" where
  "truthy JUndefined = False"
| "truthy JNull = False"
| "truthy (JBool b) = b"
| "truthy (JNum r) = (r \<noteq> 0)"
| "truthy (JStr s) = (s \<noteq> [])"

text \<open>\<open>ToNumber\<close>, the conversion behind \<open>isNaN\<close>, \<open><=\<close> and \<open>*\<close>.\<close>

fun to_number :: "js_builtins \<Rightarrow> jsval \<Rightarrow> rat option" where
  "to_number env JUndefined = None"
| "to_number env JNull = Some 0"
| "to_number env (JBool b) = Some (if b then 1 else 0)"
| "to_number env (JNum r) = Some r"
| "to_number env (JStr s) = str_number env s"

definition isNaN :: "js_builtins \<Rightarrow> jsval \<Rightarrow> bool" where
  "isNaN env v = (to_number env v = None)"

text \<open>\<open>v <= 0\<close>: a comparison with \<open>NaN\<close> is false.\<close>

definition le_zero :: "js_builtins \<Rightarrow> jsval \<Rightarrow> bool" where
  "le_zero env v = (case to_number env v of None \<Rightarrow> False | Some r \<Rightarrow> r \<le> 0)"

fun parseFloat :: "js_builtins \<Rightarrow> jsval \<Rightarrow> rat option" where
  "parseFloat env (JNum r) = Some r"
| "parseFloat env (JStr s) = str_parseFloat env s"
| "parseFloat env v = None"

text \<open>
  \<open>x.toFixed(2)\<close> is the decimal text of the multiple of 1/100 nearest to the exact value
  of \<open>x\<close>, the larger one in magnitude at a tie (\<open>toFixed\<close> rounds the absolute value and
  puts the sign back); \<open>round2\<close> is the value of that text. \<open>parseFloat\<close> of the text is
  the double nearest to it.
\<close>

definition round2 :: "rat \<Rightarrow> rat" where
  "round2 x =
     (if x < 0 then - (of_int \<lfloor>- x * 100 + 1 / 2\<rfloor> / 100)
      else of_int \<lfloor>x * 100 + 1 / 2\<rfloor> / 100)"

definition toFixed2 :: "rat \<Rightarrow> rat" where
  "toFixed2 x = double_of (round2 x)"

text \<open>The text stored in a TEXT column for a bound value.\<close>

definition sql_text :: "js_builtins \<Rightarrow> jsval \<Rightarrow> string" where
  "sql_text env v = (case v of JStr s \<Rightarrow> s | _ \<Rightarrow> text_of env v)"

section \<open>The store\<close>

text \<open>
  The two tables of \<^verbatim>\<open>database.js\<close>, as lists of rows in insertion order, and the
  \<open>AUTOINCREMENT\<close> counters of each. Foreign keys are declared but not enforced (the
  connection never turns them on), so a row of \<open>Orders\<close> can name a product that is gone.
\<close>

type_synonym timestamp = nat

record product_row =
  p_id :: int
  p_name :: string
  p_price :: rat
  p_created_at :: timestamp

record order_row =
  o_order_id :: int
  o_product_id :: int
  o_quantity :: rat
  o_total_price :: rat
  o_order_date :: timestamp

record db =
  products :: "product_row list"
  orders :: "order_row list"
  products_seq :: int
  orders_seq :: int

text \<open>
  \<open>AUTOINCREMENT\<close>: one more than the largest rowid the table has ever held.
\<close>

definition next_rowid :: "int \<Rightarrow> int list \<Rightarrow> int" where
  "next_rowid seq ids = fold max ids seq + 1"

text \<open>
  \<open>WHERE id = ?\<close> with a bound body field: the INTEGER column is compared with the
  number bound, a boolean being bound as 1 or 0 and a text being read by the store.
\<close>

definition sql_eq :: "js_builtins \<Rightarrow> int \<Rightarrow> jsval \<Rightarrow> bool" where
  "sql_eq env k v =
     (case v of
        JStr s \<Rightarrow> sql_number env s = Some (of_int k)
      | _ \<Rightarrow> to_number env v = Some (of_int k))"

section \<open>Responses\<close>

text \<open>
  \<open>Reply\<close> is \<open>{success: true, message, data}\<close> with its HTTP status (some handlers
  send no message), \<open>Refuse\<close> is \<open>{success: false, message}\<close> with its status (400 or
  404), \<open>Storage_Error\<close> is the 500 answer \<open>{error: err.message}\<close>, and \<open>Uncaught\<close> is an
  exception thrown inside a callback. The store is taken to work: the only error it
  raises here is the refusal of a NULL in a NOT NULL column.
\<close>

datatype 'a response =
    Reply nat "string option" 'a
  | Refuse nat string
  | Storage_Error string
  | Uncaught string

section \<open>Order ledger (routes/orders.js)\<close>

record order_created =
  oc_order_id :: int
  oc_product_id :: jsval
  oc_product_name :: string
  oc_quantity :: jsval
  oc_total_price :: rat
  oc_order_date :: timestamp

text \<open>
  \<open>router.post('/')\<close>. \<open>now\<close> is the clock, read by \<open>CURRENT_TIMESTAMP\<close> and by
  \<open>new Date()\<close>. After the two checks the quantity has a numeric value; the \<open>None\<close>
  branch of the multiplication is the NOT NULL failure that a \<open>NaN\<close> total would cause.
  The \<open>quantity\<close> column is taken to hold that numeric value (a text that the store
  would leave as text is not modelled).
\<close>

definition createOrder ::
  "js_builtins \<Rightarrow> timestamp \<Rightarrow> jsval \<Rightarrow> jsval \<Rightarrow> db \<Rightarrow> db \<times> order_created response" where
  "createOrder env now product_id quantity st =
     (if \<not> truthy product_id \<or> \<not> truthy quantity then
        (st, Refuse 400 ''Product ID and quantity are required'')
      else if isNaN env quantity \<or> le_zero env quantity then
        (st, Refuse 400 ''Quantity must be greater than 0'')
      else
        (case find (\<lambda>p. sql_eq env (p_id p) product_id) (products st) of
           None \<Rightarrow> (st, Refuse 404 ''Product not found'')
         | Some product \<Rightarrow>
             (case to_number env quantity of
                None \<Rightarrow> (st, Storage_Error ''SQLITE_CONSTRAINT: NOT NULL constraint failed: Orders.total_price'')
              | Some q \<Rightarrow>
                  let total_price = double_times (p_price product) q;
                      lastID = next_rowid (orders_seq st) (map o_order_id (orders st))
                  in (st\<lparr>orders := orders st @
                            [\<lparr>o_order_id = lastID, o_product_id = p_id product, o_quantity = q,
                              o_total_price = total_price, o_order_date = now\<rparr>],
                         orders_seq := lastID\<rparr>,
                      Reply 201 (Some ''Order created successfully'')
                        \<lparr>oc_order_id = lastID, oc_product_id = product_id,
                         oc_product_name = p_name product, oc_quantity = quantity,
                         oc_total_price = toFixed2 total_price, oc_order_date = now\<rparr>))))"

text \<open>
  \<open>FROM Orders o JOIN Products p ON o.product_id = p.id\<close>: the pairs of an order and a
  product with that id. An order whose product is gone has no pair.
\<close>

definition join_products :: "order_row list \<Rightarrow> product_row list \<Rightarrow> (order_row \<times> product_row) list" where
  "join_products os ps =
     concat (map (\<lambda>ord. map (Pair ord) (filter (\<lambda>p. o_product_id ord = p_id p) ps)) os)"

text \<open>
  \<open>ORDER BY key DESC\<close>, as an insertion sort. The store promises no order among rows
  with equal keys; the sort is stable, so they stay in the order of the input.
\<close>

fun insert_desc :: "('a \<Rightarrow> 'k::linorder) \<Rightarrow> 'a \<Rightarrow> 'a list \<Rightarrow> 'a list" where
  "insert_desc key x [] = [x]"
| "insert_desc key x (y # ys) =
     (if key x < key y then y # insert_desc key x ys else x # y # ys)"

definition order_by_desc :: "('a \<Rightarrow> 'k::linorder) \<Rightarrow> 'a list \<Rightarrow> 'a list" where
  "order_by_desc key rows = foldr (insert_desc key) rows []"

text \<open>\<open>{success: true, data: rows, count: rows.length}\<close>.\<close>

record 'a listing =
  l_data :: "'a list"
  l_count :: nat

definition listing :: "'a list \<Rightarrow> 'a listing" where
  "listing rows = \<lparr>l_data = rows, l_count = length rows\<rparr>"

record order_listed =
  ol_order_id :: int
  ol_product_id :: int
  ol_product_name :: string
  ol_quantity :: rat
  ol_total_price :: rat
  ol_order_date :: timestamp

definition order_listed_of :: "order_row \<times> product_row \<Rightarrow> order_listed" where
  "order_listed_of op =
     \<lparr>ol_order_id = o_order_id (fst op), ol_product_id = o_product_id (fst op),
      ol_product_name = p_name (snd op), ol_quantity = o_quantity (fst op),
      ol_total_price = o_total_price (fst op), ol_order_date = o_order_date (fst op)\<rparr>"

text \<open>\<open>router.get('/')\<close>.\<close>

definition listOrders :: "db \<Rightarrow> order_listed listing response" where
  "listOrders st =
     Reply 200 None
       (listing (map order_listed_of
          (order_by_desc (\<lambda>op. o_order_id (fst op)) (join_products (orders st) (products st)))))"

record order_detail =
  od_order_id :: int
  od_product_id :: int
  od_product_name :: string
  od_unit_price :: rat
  od_quantity :: rat
  od_total_price :: rat
  od_order_date :: timestamp

text \<open>
  \<open>router.get('/:id')\<close>. The route parameter \<open>id\<close> is the decimal text of an integer;
  it is held as that integer (\<open>oid\<close>, and \<open>pid\<close> in the product routes). \<open>db.get\<close> yields
  the first row of the join, or nothing.
\<close>

definition getOrder :: "int \<Rightarrow> db \<Rightarrow> order_detail response" where
  "getOrder oid st =
     (case filter (\<lambda>op. o_order_id (fst op) = oid) (join_products (orders st) (products st)) of
        [] \<Rightarrow> Refuse 404 ''Order not found''
      | (ord, p) # _ \<Rightarrow>
          Reply 200 None
            \<lparr>od_order_id = o_order_id ord, od_product_id = o_product_id ord,
             od_product_name = p_name p, od_unit_price = p_price p,
             od_quantity = o_quantity ord, od_total_price = o_total_price ord,
             od_order_date = o_order_date ord\<rparr>)"

record order_updated =
  ou_order_id :: int
  ou_product_id :: int
  ou_quantity :: "int option"
  ou_total_price :: rat

text \<open>
  \<open>router.put('/:id')\<close>. The order is read through the same join, so that
  \<open>order.price\<close> is the product's price now; \<open>UPDATE ... WHERE order_id = ?\<close> then
  rewrites the quantity and the total of the rows with that id and nothing else.
\<close>

definition updateOrder :: "js_builtins \<Rightarrow> int \<Rightarrow> jsval \<Rightarrow> db \<Rightarrow> db \<times> order_updated response" where
  "updateOrder env oid quantity st =
     (if \<not> truthy quantity then (st, Refuse 400 ''Quantity is required'')
      else if isNaN env quantity \<or> le_zero env quantity then
        (st, Refuse 400 ''Quantity must be greater than 0'')
      else
        (case filter (\<lambda>op. o_order_id (fst op) = oid) (join_products (orders st) (products st)) of
           [] \<Rightarrow> (st, Refuse 404 ''Order not found'')
         | (ord, p) # _ \<Rightarrow>
             (case to_number env quantity of
                None \<Rightarrow> (st, Storage_Error ''SQLITE_CONSTRAINT: NOT NULL constraint failed: Orders.total_price'')
              | Some q \<Rightarrow>
                  let new_total_price = double_times (p_price p) q
                  in (st\<lparr>orders :=
                          map (\<lambda>r. if o_order_id r = oid
                                    then r\<lparr>o_quantity := q, o_total_price := new_total_price\<rparr>
                                    else r) (orders st)\<rparr>,
                      Reply 200 (Some ''Order updated successfully'')
                        \<lparr>ou_order_id = oid, ou_product_id = o_product_id ord,
                         ou_quantity = parseInt env quantity,
                         ou_total_price = toFixed2 new_total_price\<rparr>))))"

text \<open>
  \<open>router.delete('/:id')\<close> and \<open>router.delete('/')\<close>. \<open>this.changes\<close> is the number of
  rows the DELETE removed; the second handler puts it into its message, and it is the
  data of the answer here.
\<close>

definition deleteOrder :: "int \<Rightarrow> db \<Rightarrow> db \<times> unit response" where
  "deleteOrder oid st =
     (if length (filter (\<lambda>r. o_order_id r = oid) (orders st)) = 0 then
        (st, Refuse 404 ''Order not found'')
      else (st\<lparr>orders := filter (\<lambda>r. o_order_id r \<noteq> oid) (orders st)\<rparr>,
            Reply 200 (Some ''Order deleted successfully'') ()))"

definition deleteAllOrders :: "db \<Rightarrow> db \<times> nat response" where
  "deleteAllOrders st =
     (st\<lparr>orders := []\<rparr>, Reply 200 (Some ''All orders deleted successfully'') (length (orders st)))"

section \<open>Catalog store (routes/products.js)\<close>

record product_echo =
  pe_id :: int
  pe_name :: jsval
  pe_price :: rat

text \<open>
  \<open>router.post('/')\<close>. The price bound to the statement is \<open>parseFloat(price)\<close>; a
  \<open>NaN\<close> there reaches the store as NULL and the NOT NULL column refuses it.
\<close>

definition createProduct ::
  "js_builtins \<Rightarrow> timestamp \<Rightarrow> jsval \<Rightarrow> jsval \<Rightarrow> db \<Rightarrow> db \<times> product_echo response" where
  "createProduct env now name price st =
     (if \<not> truthy name \<or> \<not> truthy price then (st, Refuse 400 ''Name and price are required'')
      else if isNaN env price \<or> le_zero env price then
        (st, Refuse 400 ''Price must be a positive number'')
      else
        (case parseFloat env price of
           None \<Rightarrow> (st, Storage_Error ''SQLITE_CONSTRAINT: NOT NULL constraint failed: Products.price'')
         | Some pr \<Rightarrow>
             let lastID = next_rowid (products_seq st) (map p_id (products st))
             in (st\<lparr>products := products st @
                       [\<lparr>p_id = lastID, p_name = sql_text env name, p_price = pr,
                         p_created_at = now\<rparr>],
                    products_seq := lastID\<rparr>,
                 Reply 201 (Some ''Product created successfully'')
                   \<lparr>pe_id = lastID, pe_name = name, pe_price = pr\<rparr>)))"

text \<open>
  \<open>router.put('/:id')\<close>. \<open>this.changes\<close> is the number of rows the UPDATE matched.
\<close>

definition updateProduct ::
  "js_builtins \<Rightarrow> int \<Rightarrow> jsval \<Rightarrow> jsval \<Rightarrow> db \<Rightarrow> db \<times> product_echo response" where
  "updateProduct env pid name price st =
     (if \<not> truthy name \<or> \<not> truthy price then (st, Refuse 400 ''Name and price are required'')
      else if isNaN env price \<or> le_zero env price then
        (st, Refuse 400 ''Price must be a positive number'')
      else if length (filter (\<lambda>p. p_id p = pid) (products st)) = 0 then
        (st, Refuse 404 ''Product not found'')
      else
        (case parseFloat env price of
           None \<Rightarrow> (st, Storage_Error ''SQLITE_CONSTRAINT: NOT NULL constraint failed: Products.price'')
         | Some pr \<Rightarrow>
             (st\<lparr>products :=
                   map (\<lambda>p. if p_id p = pid then p\<lparr>p_name := sql_text env name, p_price := pr\<rparr>
                            else p) (products st)\<rparr>,
              Reply 200 (Some ''Product updated successfully'')
                \<lparr>pe_id = pid, pe_name = name, pe_price = pr\<rparr>)))"

text \<open>
  \<open>router.delete('/:id')\<close>. The handler does not look at the orders, and the store does
  not enforce the foreign key: the orders of a deleted product stay.
\<close>

definition deleteProduct :: "int \<Rightarrow> db \<Rightarrow> db \<times> unit response" where
  "deleteProduct pid st =
     (if length (filter (\<lambda>p. p_id p = pid) (products st)) = 0 then
        (st, Refuse 404 ''Product not found'')
      else (st\<lparr>products := filter (\<lambda>p. p_id p \<noteq> pid) (products st)\<rparr>,
            Reply 200 (Some ''Product deleted successfully'') ()))"

definition listProducts :: "db \<Rightarrow> product_row listing response" where
  "listProducts st = Reply 200 None (listing (order_by_desc p_id (products st)))"

definition getProduct :: "int \<Rightarrow> db \<Rightarrow> product_row response" where
  "getProduct pid st =
     (case find (\<lambda>p. p_id p = pid) (products st) of
        None \<Rightarrow> Refuse 404 ''Product not found''
      | Some row \<Rightarrow> Reply 200 None row)"

section \<open>Reporting engine (routes/reports.js)\<close>

text \<open>
  \<open>FROM Products p LEFT JOIN Orders o ON p.id = o.product_id\<close>: a product without orders
  keeps one row, whose order columns are NULL.
\<close>

definition joined_orders :: "order_row list \<Rightarrow> product_row \<Rightarrow> (product_row \<times> order_row option) list" where
  "joined_orders os p =
     (case filter (\<lambda>ord. p_id p = o_product_id ord) os of
        [] \<Rightarrow> [(p, None)]
      | ms \<Rightarrow> map (\<lambda>ord. (p, Some ord)) ms)"

definition left_join :: "product_row list \<Rightarrow> order_row list \<Rightarrow> (product_row \<times> order_row option) list" where
  "left_join ps os = concat (map (joined_orders os) ps)"

text \<open>\<open>GROUP BY\<close>: one group for each distinct key, holding the rows with that key.\<close>

definition group_by :: "('a \<Rightarrow> 'k) \<Rightarrow> 'a list \<Rightarrow> ('k \<times> 'a list) list" where
  "group_by key rows = map (\<lambda>k. (k, filter (\<lambda>r. key r = k) rows)) (remdups (map key rows))"

definition group_key :: "product_row \<Rightarrow> int \<times> string \<times> rat" where
  "group_key p = (p_id p, p_name p, p_price p)"

text \<open>
  The aggregates skip NULL. \<open>SUM\<close>, \<open>AVG\<close>, \<open>MIN\<close> and \<open>MAX\<close> of no value are NULL,
  \<open>COUNT\<close> of no value is 0. The sums are exact here; the store adds doubles.
\<close>

definition non_null :: "'a option list \<Rightarrow> 'a list" where
  "non_null xs = concat (map (\<lambda>x. case x of None \<Rightarrow> [] | Some v \<Rightarrow> [v]) xs)"

definition sql_sum :: "rat option list \<Rightarrow> rat option" where
  "sql_sum xs = (if non_null xs = [] then None else Some (sum_list (non_null xs)))"

definition sql_count :: "'a option list \<Rightarrow> nat" where
  "sql_count xs = length (non_null xs)"

definition sql_avg :: "rat option list \<Rightarrow> rat option" where
  "sql_avg xs =
     (if non_null xs = [] then None
      else Some (sum_list (non_null xs) / of_nat (length (non_null xs))))"

definition sql_min :: "('a::linorder) option list \<Rightarrow> 'a option" where
  "sql_min xs = (case non_null xs of [] \<Rightarrow> None | v # vs \<Rightarrow> Some (fold min vs v))"

definition sql_max :: "('a::linorder) option list \<Rightarrow> 'a option" where
  "sql_max xs = (case non_null xs of [] \<Rightarrow> None | v # vs \<Rightarrow> Some (fold max vs v))"

definition coalesce :: "'a option \<Rightarrow> 'a \<Rightarrow> 'a" where
  "coalesce x d = (case x of None \<Rightarrow> d | Some v \<Rightarrow> v)"

text \<open>The rows of the top-sellers query, before the handler formats them.\<close>

record top_seller_row =
  tr_id :: int
  tr_name :: string
  tr_price :: rat
  tr_total_quantity_sold :: "rat option"
  tr_number_of_orders :: nat
  tr_total_revenue :: "rat option"

definition top_seller_row_of :: "(int \<times> string \<times> rat) \<times> (product_row \<times> order_row option) list \<Rightarrow> top_seller_row" where
  "top_seller_row_of g =
     \<lparr>tr_id = fst (fst g), tr_name = fst (snd (fst g)), tr_price = snd (snd (fst g)),
      tr_total_quantity_sold = sql_sum (map (\<lambda>r. map_option o_quantity (snd r)) (snd g)),
      tr_number_of_orders = sql_count (map (\<lambda>r. map_option o_order_id (snd r)) (snd g)),
      tr_total_revenue = sql_sum (map (\<lambda>r. map_option o_total_price (snd r)) (snd g))\<rparr>"

text \<open>
  \<open>HAVING total_quantity_sold > 0\<close> drops a NULL sum as well as a sum that is not
  positive. In \<open>ORDER BY ... DESC\<close> a NULL comes last: \<open>None\<close> is the least element of
  the order on options.
\<close>

definition top_sellers_query :: "db \<Rightarrow> top_seller_row list" where
  "top_sellers_query st =
     take 5
       (order_by_desc tr_total_quantity_sold
          (filter (\<lambda>r. case tr_total_quantity_sold r of None \<Rightarrow> False | Some t \<Rightarrow> 0 < t)
             (map top_seller_row_of
                (group_by (\<lambda>r. group_key (fst r)) (left_join (products st) (orders st))))))"

record top_seller =
  ts_id :: int
  ts_name :: string
  ts_price :: rat
  ts_total_quantity_sold :: "rat option"
  ts_number_of_orders :: nat
  ts_total_revenue :: rat

text \<open>
  \<open>rows.map(row => ...)\<close>: \<open>row.total_revenue.toFixed(2)\<close> throws a TypeError on a
  NULL revenue, which is the \<open>None\<close> of this function.
\<close>

definition top_seller_of :: "top_seller_row \<Rightarrow> top_seller option" where
  "top_seller_of row =
     (case tr_total_revenue row of
        None \<Rightarrow> None
      | Some revenue \<Rightarrow>
          Some \<lparr>ts_id = tr_id row, ts_name = tr_name row, ts_price = toFixed2 (tr_price row),
                ts_total_quantity_sold = tr_total_quantity_sold row,
                ts_number_of_orders = tr_number_of_orders row,
                ts_total_revenue = toFixed2 revenue\<rparr>)"

text \<open>\<open>router.get('/top-sellers')\<close>.\<close>

definition topSellers :: "db \<Rightarrow> top_seller listing response" where
  "topSellers st =
     (case those (map top_seller_of (top_sellers_query st)) of
        None \<Rightarrow> Uncaught ''TypeError''
      | Some rows \<Rightarrow>
          Reply 200 (Some ''Top 5 best-selling products retrieved successfully'') (listing rows))"

record sales_summary =
  ss_total_orders :: nat
  ss_total_items_sold :: rat
  ss_total_revenue :: rat
  ss_average_order_value :: rat
  ss_first_order_date :: "timestamp option"
  ss_last_order_date :: "timestamp option"

text \<open>
  \<open>router.get('/sales-summary')\<close>. \<open>x || 0\<close> is 0 for NULL and for 0, and
  \<open>x ? f(x) : 0\<close> likewise.
\<close>

definition or_zero :: "rat option \<Rightarrow> rat" where
  "or_zero x = (case x of None \<Rightarrow> 0 | Some v \<Rightarrow> v)"

definition fixed_or_zero :: "rat option \<Rightarrow> rat" where
  "fixed_or_zero x = (case x of None \<Rightarrow> 0 | Some v \<Rightarrow> if v = 0 then 0 else toFixed2 v)"

definition salesSummary :: "db \<Rightarrow> sales_summary response" where
  "salesSummary st =
     Reply 200 (Some ''Sales summary retrieved successfully'')
       \<lparr>ss_total_orders = length (remdups (map o_order_id (orders st))),
        ss_total_items_sold = or_zero (sql_sum (map (\<lambda>r. Some (o_quantity r)) (orders st))),
        ss_total_revenue = fixed_or_zero (sql_sum (map (\<lambda>r. Some (o_total_price r)) (orders st))),
        ss_average_order_value =
          fixed_or_zero (sql_avg (map (\<lambda>r. Some (o_total_price r)) (orders st))),
        ss_first_order_date = sql_min (map (\<lambda>r. Some (o_order_date r)) (orders st)),
        ss_last_order_date = sql_max (map (\<lambda>r. Some (o_order_date r)) (orders st))\<rparr>"

record product_performance =
  pp_id :: int
  pp_name :: string
  pp_price :: rat
  pp_total_sold :: rat
  pp_order_count :: nat
  pp_revenue :: rat

definition performance_row_of :: "(int \<times> string \<times> rat) \<times> (product_row \<times> order_row option) list \<Rightarrow> product_performance" where
  "performance_row_of g =
     \<lparr>pp_id = fst (fst g), pp_name = fst (snd (fst g)), pp_price = snd (snd (fst g)),
      pp_total_sold = coalesce (sql_sum (map (\<lambda>r. map_option o_quantity (snd r)) (snd g))) 0,
      pp_order_count = sql_count (map (\<lambda>r. map_option o_order_id (snd r)) (snd g)),
      pp_revenue = coalesce (sql_sum (map (\<lambda>r. map_option o_total_price (snd r)) (snd g))) 0\<rparr>"

text \<open>
  \<open>router.get('/product-performance')\<close>: the query, then \<open>toFixed(2)\<close> on the price and
  the revenue of each row.
\<close>

definition productPerformance :: "db \<Rightarrow> product_performance listing response" where
  "productPerformance st =
     Reply 200 (Some ''Product performance data retrieved successfully'')
       (listing
          (map (\<lambda>row. row\<lparr>pp_price := toFixed2 (pp_price row), pp_revenue := toFixed2 (pp_revenue row)\<rparr>)
             (order_by_desc pp_total_sold
                (map performance_row_of
                   (group_by (\<lambda>r. group_key (fst r)) (left_join (products st) (orders st)))))))"

section \<open>What the reports and listings are measured against\<close>

text \<open>
  The orders that name a product id, the quantity sold of a product, the performance row
  of a product and the listing of the orders whose product exists, each written directly
  over the two tables. The handlers above go through joins, groups and aggregates; the
  theorems below relate the two.
\<close>

definition orders_of :: "db \<Rightarrow> int \<Rightarrow> order_row list" where
  "orders_of st pid = filter (\<lambda>ord. o_product_id ord = pid) (orders st)"

definition quantity_sold :: "db \<Rightarrow> int \<Rightarrow> rat" where
  "quantity_sold st pid = sum_list (map o_quantity (orders_of st pid))"

definition performance_of :: "db \<Rightarrow> product_row \<Rightarrow> product_performance" where
  "performance_of st p =
     \<lparr>pp_id = p_id p, pp_name = p_name p, pp_price = toFixed2 (p_price p),
      pp_total_sold = sum_list (map o_quantity (orders_of st (p_id p))),
      pp_order_count = length (orders_of st (p_id p)),
      pp_revenue = toFixed2 (sum_list (map o_total_price (orders_of st (p_id p))))\<rparr>"

definition listed_orders :: "db \<Rightarrow> order_listed list" where
  "listed_orders st =
     concat (map (\<lambda>ord. case find (\<lambda>p. p_id p = o_product_id ord) (products st) of
                           None \<Rightarrow> []
                         | Some p \<Rightarrow>
                             [\<lparr>ol_order_id = o_order_id ord, ol_product_id = o_product_id ord,
                               ol_product_name = p_name p, ol_quantity = o_quantity ord,
                               ol_total_price = o_total_price ord,
                               ol_order_date = o_order_date ord\<rparr>]) (orders st))"

text \<open>The primary keys of the two tables: no id occurs twice.\<close>

definition primary_keys :: "db \<Rightarrow> bool" where
  "primary_keys st \<longleftrightarrow> distinct (map p_id (products st)) \<and> distinct (map o_order_id (orders st))"

section \<open>A runtime and some stores to run the handlers on\<close>

text \<open>
  A choice of the conversions that reads no string as a number; the examples below send
  numbers, as the repository's tests do.
\<close>

definition plain_builtins :: js_builtins where
  "plain_builtins =
     \<lparr>str_number = (\<lambda>s. None), str_parseFloat = (\<lambda>s. None),
      parseInt = (\<lambda>v. case v of JNum r \<Rightarrow> Some (if r < 0 then - \<lfloor>- r\<rfloor> else \<lfloor>r\<rfloor>) | _ \<Rightarrow> None),
      text_of = (\<lambda>v. []), sql_number = (\<lambda>s. None)\<rparr>"

definition empty_db :: db where
  "empty_db = \<lparr>products = [], orders = [], products_seq = 0, orders_seq = 0\<rparr>"

text \<open>One product at 10.00 and one order of 3 of it.\<close>

definition widget_db :: db where
  "widget_db =
     \<lparr>products = [\<lparr>p_id = 1, p_name = ''Widget'', p_price = 10, p_created_at = 7\<rparr>],
      orders = [\<lparr>o_order_id = 1, o_product_id = 1, o_quantity = 3, o_total_price = 30,
                 o_order_date = 8\<rparr>],
      products_seq = 1, orders_seq = 1\<rparr>"

text \<open>The same store after \<open>DELETE /products/1\<close>: the order stays, its product is gone.\<close>

definition dangling_db :: db where
  "dangling_db = widget_db\<lparr>products := []\<rparr>"

text \<open>One product at 0.0625 and one order of 1 of it.\<close>

definition fraction_db :: db where
  "fraction_db =
     \<lparr>products = [\<lparr>p_id = 1, p_name = ''Widget'', p_price = 1 / 16, p_created_at = 7\<rparr>],
      orders = [\<lparr>o_order_id = 1, o_product_id = 1, o_quantity = 1, o_total_price = 1 / 16,
                 o_order_date = 8\<rparr>],
      products_seq = 1, orders_seq = 1\<rparr>"

text \<open>
  Three products: A sold 10 in two orders, B sold 5 in one, C sold nothing; and one order
  of a product that has been deleted.
\<close>

definition report_db :: db where
  "report_db =
     \<lparr>products =
        [\<lparr>p_id = 1, p_name = ''A'', p_price = 100, p_created_at = 1\<rparr>,
         \<lparr>p_id = 2, p_name = ''B'', p_price = 200, p_created_at = 2\<rparr>,
         \<lparr>p_id = 3, p_name = ''C'', p_price = 50, p_created_at = 3\<rparr>],
      orders =
        [\<lparr>o_order_id = 1, o_product_id = 1, o_quantity = 4, o_total_price = 400, o_order_date = 11\<rparr>,
         \<lparr>o_order_id = 2, o_product_id = 2, o_quantity = 5, o_total_price = 1000, o_order_date = 12\<rparr>,
         \<lparr>o_order_id = 3, o_product_id = 1, o_quantity = 6, o_total_price = 600, o_order_date = 13\<rparr>,
         \<lparr>o_order_id = 4, o_product_id = 9, o_quantity = 2, o_total_price = 20, o_order_date = 14\<rparr>],
      products_seq = 9, orders_seq = 4\<rparr>"

section \<open>Sorting, joining and grouping\<close>

text \<open>\<open>ORDER BY ... DESC\<close> permutes the rows and leaves them in non-increasing order.\<close>

lemma mset_insert_desc: "mset (insert_desc key x ys) = add_mset x (mset ys)"
  by (induction ys) auto

lemma mset_order_by_desc: "mset (order_by_desc key rows) = mset rows"
  by (induction rows) (auto simp: order_by_desc_def mset_insert_desc)

lemma set_order_by_desc: "set (order_by_desc key rows) = set rows"
  using mset_order_by_desc by (metis set_mset_mset)

lemma length_order_by_desc: "length (order_by_desc key rows) = length rows"
  using mset_order_by_desc by (metis size_mset)

lemma set_insert_desc: "set (insert_desc key x ys) = insert x (set ys)"
  by (induction ys) auto

lemma sorted_insert_desc:
  "sorted_wrt (\<lambda>a b. key b \<le> key a) ys \<Longrightarrow> sorted_wrt (\<lambda>a b. key b \<le> key a) (insert_desc key x ys)"
  by (induction ys) (auto simp: set_insert_desc)

lemma sorted_order_by_desc: "sorted_wrt (\<lambda>a b. key b \<le> key a) (order_by_desc key rows)"
  by (induction rows) (auto simp: order_by_desc_def sorted_insert_desc)

text \<open>
  Under a primary key, the rows with a given key are the one row that \<open>find\<close> returns.
\<close>

lemma filter_distinct_key:
  "distinct (map key ps) \<Longrightarrow> filter (\<lambda>p. k = key p) ps = (case find (\<lambda>p. key p = k) ps of None \<Rightarrow> [] | Some p \<Rightarrow> [p])"
proof (induction ps)
  case Nil then show ?case by simp
next
  case (Cons a ps)
  show ?case
  proof (cases "key a = k")
    case True
    from Cons.prems have "key a \<notin> key ` set ps" by simp
    with True have "\<forall>p\<in>set ps. key p \<noteq> k" by blast
    then have "filter (\<lambda>p. k = key p) ps = []" by (auto simp: filter_empty_conv)
    with True show ?thesis by simp
  next
    case False
    with Cons show ?thesis by auto
  qed
qed

lemma find_distinct_key:
  "distinct (map key ps) \<Longrightarrow> p \<in> set ps \<Longrightarrow> find (\<lambda>q. key q = key p) ps = Some p"
proof (induction ps)
  case Nil then show ?case by simp
next
  case (Cons a ps)
  show ?case
  proof (cases "a = p")
    case True then show ?thesis by simp
  next
    case False
    with Cons.prems have mem: "p \<in> set ps" by simp
    from Cons.prems have "key a \<notin> key ` set ps" by simp
    with mem have "key a \<noteq> key p" by (metis imageI)
    with Cons mem show ?thesis by simp
  qed
qed

text \<open>The inner join of the order routes, read one order at a time.\<close>

lemma fst_join_products: "r \<in> set (join_products os ps) \<Longrightarrow> fst r \<in> set os"
  by (auto simp: join_products_def)

lemma join_products_Cons:
  "join_products (a # os) ps =
     map (Pair a) (filter (\<lambda>p. o_product_id a = p_id p) ps) @ join_products os ps"
  by (simp add: join_products_def)

lemma filter_join_other:
  assumes "\<forall>r\<in>set os. o_order_id r \<noteq> oid"
  shows "filter (\<lambda>op. o_order_id (fst op) = oid) (join_products os ps) = []"
  using assms by (auto simp: filter_empty_conv dest: fst_join_products)

lemma filter_join_by_order:
  "distinct (map o_order_id os) \<Longrightarrow> ord \<in> set os \<Longrightarrow>
   filter (\<lambda>op. o_order_id (fst op) = o_order_id ord) (join_products os ps) =
     map (Pair ord) (filter (\<lambda>p. o_product_id ord = p_id p) ps)"
proof (induction os)
  case Nil then show ?case by simp
next
  case (Cons a os)
  from Cons.prems have fresh: "o_order_id a \<notin> o_order_id ` set os" by simp
  show ?case
  proof (cases "a = ord")
    case True
    from fresh True have "\<forall>r\<in>set os. o_order_id r \<noteq> o_order_id ord" by (metis imageI)
    then have "filter (\<lambda>op. o_order_id (fst op) = o_order_id ord) (join_products os ps) = []"
      by (rule filter_join_other)
    with True show ?thesis by (simp add: join_products_Cons filter_map comp_def)
  next
    case False
    with Cons.prems have mem: "ord \<in> set os" by simp
    with fresh have "o_order_id a \<noteq> o_order_id ord" by (metis imageI)
    with Cons mem show ?thesis by (simp add: join_products_Cons filter_map comp_def)
  qed
qed

lemma order_lookup:
  assumes "distinct (map o_order_id os)" and "distinct (map p_id ps)"
    and "ord \<in> set os" and "p \<in> set ps" and "p_id p = o_product_id ord"
  shows "filter (\<lambda>op. o_order_id (fst op) = o_order_id ord) (join_products os ps) = [(ord, p)]"
proof -
  have "filter (\<lambda>q. o_product_id ord = p_id q) ps = [p]"
    using filter_distinct_key [OF assms(2), of "o_product_id ord"]
      find_distinct_key [OF assms(2) assms(4)] assms(5) by simp
  with filter_join_by_order [OF assms(1) assms(3)] show ?thesis by simp
qed

lemma update_one_row:
  assumes "distinct (map o_order_id os)" and "ord \<in> set os"
  shows "map (\<lambda>r. if o_order_id r = o_order_id ord then f r else r) os =
         map (\<lambda>r. if r = ord then f ord else r) os"
proof (rule map_cong [OF refl])
  fix r assume "r \<in> set os"
  with assms have "o_order_id r = o_order_id ord \<longleftrightarrow> r = ord"
    by (meson distinct_map inj_onD)
  then show "(if o_order_id r = o_order_id ord then f r else r) = (if r = ord then f ord else r)"
    by auto
qed

lemma join_products_distinct:
  assumes "distinct (map p_id ps)"
  shows "join_products os ps =
     concat (map (\<lambda>ord. case find (\<lambda>p. p_id p = o_product_id ord) ps of
                           None \<Rightarrow> [] | Some p \<Rightarrow> [(ord, p)]) os)"
proof -
  have eq: "map (Pair ord) (filter (\<lambda>p. o_product_id ord = p_id p) ps) =
      (case find (\<lambda>p. p_id p = o_product_id ord) ps of None \<Rightarrow> [] | Some p \<Rightarrow> [(ord, p)])" for ord
    using filter_distinct_key [OF assms, of "o_product_id ord"] by (simp split: option.splits)
  show ?thesis unfolding join_products_def eq by (rule refl)
qed

lemma map_listed_join:
  assumes "distinct (map p_id (products st))"
  shows "map order_listed_of (join_products (orders st) (products st)) = listed_orders st"
proof -
  have "map order_listed_of (case x of None \<Rightarrow> [] | Some p \<Rightarrow> [(ord, p)]) =
      (case x of None \<Rightarrow> []
       | Some p \<Rightarrow>
           [\<lparr>ol_order_id = o_order_id ord, ol_product_id = o_product_id ord,
             ol_product_name = p_name p, ol_quantity = o_quantity ord,
             ol_total_price = o_total_price ord, ol_order_date = o_order_date ord\<rparr>])" for x ord
    by (cases x) (auto simp: order_listed_of_def)
  then show ?thesis
    by (simp add: join_products_distinct [OF assms] listed_orders_def map_concat comp_def)
qed

text \<open>
  The left join of the reports, grouped: with \<open>p.id\<close> a primary key there is one group
  for each product, and it holds the orders of that product.
\<close>

lemma non_null_map_option: "non_null (map (\<lambda>r. map_option f (g r)) xs) = map f (non_null (map g xs))"
  by (induction xs) (auto simp: non_null_def split: option.splits)

lemma non_null_map_Some: "non_null (map (\<lambda>x. Some (f x)) xs) = map f xs"
  by (induction xs) (auto simp: non_null_def)

lemma non_null_joined_orders:
  "non_null (map snd (joined_orders os p)) = filter (\<lambda>ord. p_id p = o_product_id ord) os"
proof (cases "filter (\<lambda>ord. p_id p = o_product_id ord) os")
  case Nil
  then show ?thesis by (simp add: joined_orders_def non_null_def)
next
  case (Cons a ms)
  then have "joined_orders os p = map (\<lambda>ord. (p, Some ord)) (a # ms)"
    by (simp add: joined_orders_def)
  then have "non_null (map snd (joined_orders os p)) = a # ms"
    using non_null_map_Some [of "\<lambda>x. x" "a # ms"] by (simp add: comp_def)
  with Cons show ?thesis by simp
qed

lemma remdups_same_prefix:
  "xs \<noteq> [] \<Longrightarrow> \<forall>x\<in>set xs. x = k \<Longrightarrow> k \<notin> set ys \<Longrightarrow> remdups (xs @ ys) = k # remdups ys"
proof (induction xs)
  case Nil then show ?case by simp
next
  case (Cons a xs)
  then have a: "a = k" by simp
  show ?case
  proof (cases "xs = []")
    case True
    with a Cons.prems show ?thesis by simp
  next
    case False
    then obtain b bs where "xs = b # bs" by (cases xs) auto
    with Cons.prems have "k \<in> set xs" by auto
    with a have "remdups ((a # xs) @ ys) = remdups (xs @ ys)" by simp
    with Cons False show ?thesis by simp
  qed
qed

lemma group_by_append:
  assumes "xs \<noteq> []" and "\<forall>x\<in>set xs. key x = k" and "\<forall>y\<in>set ys. key y \<noteq> k"
  shows "group_by key (xs @ ys) = (k, xs) # group_by key ys"
proof -
  have keys: "remdups (map key (xs @ ys)) = k # remdups (map key ys)"
    using assms remdups_same_prefix [of "map key xs" k "map key ys"] by auto
  have own: "filter (\<lambda>r. key r = k) (xs @ ys) = xs"
    using assms by (simp add: filter_empty_conv)
  have other: "filter (\<lambda>r. key r = k') (xs @ ys) = filter (\<lambda>r. key r = k') ys" if "k' \<noteq> k" for k'
    using assms that by (auto simp: filter_empty_conv)
  have "k' \<noteq> k" if "k' \<in> set (remdups (map key ys))" for k'
    using assms that by auto
  then have "map (\<lambda>k'. (k', filter (\<lambda>r. key r = k') (xs @ ys))) (remdups (map key ys))
      = map (\<lambda>k'. (k', filter (\<lambda>r. key r = k') ys)) (remdups (map key ys))"
    using other by (intro map_cong refl) (simp del: filter_append)
  with keys own show ?thesis by (simp add: group_by_def)
qed

lemma joined_orders_nonempty: "joined_orders os p \<noteq> []"
  by (simp add: joined_orders_def split: list.splits)

lemma fst_joined_orders: "r \<in> set (joined_orders os p) \<Longrightarrow> fst r = p"
  by (auto simp: joined_orders_def split: list.splits)

lemma fst_left_join: "r \<in> set (left_join ps os) \<Longrightarrow> fst r \<in> set ps"
  by (auto simp: left_join_def dest: fst_joined_orders)

lemma group_by_left_join:
  "distinct (map p_id ps) \<Longrightarrow>
   group_by (\<lambda>r. group_key (fst r)) (left_join ps os) = map (\<lambda>p. (group_key p, joined_orders os p)) ps"
proof (induction ps)
  case Nil then show ?case by (simp add: left_join_def group_by_def)
next
  case (Cons a ps)
  have split: "left_join (a # ps) os = joined_orders os a @ left_join ps os"
    by (simp add: left_join_def)
  have own: "\<forall>x\<in>set (joined_orders os a). group_key (fst x) = group_key a"
    by (auto dest: fst_joined_orders)
  have other: "\<forall>y\<in>set (left_join ps os). group_key (fst y) \<noteq> group_key a"
  proof
    fix y assume "y \<in> set (left_join ps os)"
    then have "fst y \<in> set ps" by (rule fst_left_join)
    moreover from Cons.prems have "p_id a \<notin> p_id ` set ps" by simp
    ultimately have "p_id (fst y) \<noteq> p_id a" by (metis imageI)
    then show "group_key (fst y) \<noteq> group_key a" by (simp add: group_key_def)
  qed
  from Cons have ih: "group_by (\<lambda>r. group_key (fst r)) (left_join ps os)
      = map (\<lambda>p. (group_key p, joined_orders os p)) ps" by simp
  show ?case
    unfolding split
    using group_by_append [OF joined_orders_nonempty own other] ih by simp
qed

lemma sql_sum_joined:
  "sql_sum (map (\<lambda>r. map_option f (snd r)) (joined_orders os p)) =
     (if filter (\<lambda>ord. p_id p = o_product_id ord) os = [] then None
      else Some (sum_list (map f (filter (\<lambda>ord. p_id p = o_product_id ord) os))))"
  by (simp add: sql_sum_def non_null_map_option non_null_joined_orders)

lemma sql_count_joined:
  "sql_count (map (\<lambda>r. map_option f (snd r)) (joined_orders os p)) =
     length (filter (\<lambda>ord. p_id p = o_product_id ord) os)"
  by (simp add: sql_count_def non_null_map_option non_null_joined_orders)

lemma orders_of_flip: "filter (\<lambda>ord. k = o_product_id ord) os = filter (\<lambda>ord. o_product_id ord = k) os"
  by (rule filter_cong) auto

lemma those_map_Some: "those (map (\<lambda>x. Some (f x)) xs) = Some (map f xs)"
  by (induction xs) auto

lemma top_seller_row_of_joined:
  "top_seller_row_of (group_key p, joined_orders (orders st) p) =
     \<lparr>tr_id = p_id p, tr_name = p_name p, tr_price = p_price p,
      tr_total_quantity_sold =
        (if orders_of st (p_id p) = [] then None else Some (quantity_sold st (p_id p))),
      tr_number_of_orders = length (orders_of st (p_id p)),
      tr_total_revenue =
        (if orders_of st (p_id p) = [] then None
         else Some (sum_list (map o_total_price (orders_of st (p_id p)))))\<rparr>"
  by (simp add: top_seller_row_of_def group_key_def sql_sum_joined sql_count_joined
      orders_of_flip orders_of_def quantity_sold_def)

lemma toFixed2_0: "toFixed2 0 = 0"
  by (simp add: toFixed2_def round2_def double_of_def floor_eq_iff)

lemma performance_row_of_joined:
  "performance_row_of (group_key p, joined_orders (orders st) p) =
     \<lparr>pp_id = p_id p, pp_name = p_name p, pp_price = p_price p,
      pp_total_sold = sum_list (map o_quantity (orders_of st (p_id p))),
      pp_order_count = length (orders_of st (p_id p)),
      pp_revenue = sum_list (map o_total_price (orders_of st (p_id p)))\<rparr>"
  by (simp add: performance_row_of_def group_key_def sql_sum_joined sql_count_joined
      orders_of_flip orders_of_def coalesce_def)


section \<open>The primary keys are kept\<close>

text \<open>
  A new rowid is larger than every id in the table, so no handler makes an id occur
  twice: the theorems below that assume the primary keys hold on every store that the
  handlers reach from the empty one.
\<close>

lemma fold_max_bounds: "s \<le> fold max ids s \<and> (\<forall>x\<in>set ids. x \<le> fold max ids (s::int))"
proof (induction ids arbitrary: s)
  case Nil then show ?case by simp
next
  case (Cons a ids)
  from Cons [of "max a s"] show ?case by auto
qed

lemma next_rowid_fresh: "next_rowid seq ids \<notin> set ids"
proof
  assume "next_rowid seq ids \<in> set ids"
  with fold_max_bounds [of seq ids] have "next_rowid seq ids \<le> fold max ids seq" by blast
  then show False by (simp add: next_rowid_def)
qed

lemma primary_keys_empty: "primary_keys empty_db"
  by (simp add: primary_keys_def empty_db_def)

lemma primary_keys_createProduct:
  "primary_keys st \<Longrightarrow> primary_keys (fst (createProduct env now name price st))"
  using next_rowid_fresh [of "products_seq st" "map p_id (products st)"]
  by (auto simp: primary_keys_def createProduct_def Let_def split: option.splits)

lemma primary_keys_updateProduct:
  "primary_keys st \<Longrightarrow> primary_keys (fst (updateProduct env pid name price st))"
proof -
  have "map p_id (map (\<lambda>p. if p_id p = pid then p\<lparr>p_name := n, p_price := pr\<rparr> else p) ps) = map p_id ps"
    for n pr and ps :: "product_row list"
    by (induction ps) auto
  then show "primary_keys st \<Longrightarrow> primary_keys (fst (updateProduct env pid name price st))"
    by (auto simp: primary_keys_def updateProduct_def simp del: map_map split: option.splits)
qed

lemma primary_keys_deleteProduct:
  "primary_keys st \<Longrightarrow> primary_keys (fst (deleteProduct pid st))"
  by (auto simp: primary_keys_def deleteProduct_def distinct_map_filter)

lemma primary_keys_createOrder:
  "primary_keys st \<Longrightarrow> primary_keys (fst (createOrder env now product_id quantity st))"
  using next_rowid_fresh [of "orders_seq st" "map o_order_id (orders st)"]
  by (auto simp: primary_keys_def createOrder_def Let_def split: option.splits)

lemma primary_keys_updateOrder:
  "primary_keys st \<Longrightarrow> primary_keys (fst (updateOrder env oid quantity st))"
proof -
  have "map o_order_id (map (\<lambda>r. if o_order_id r = oid then r\<lparr>o_quantity := q, o_total_price := t\<rparr> else r) os)
      = map o_order_id os" for q t and os :: "order_row list"
    by (induction os) auto
  then show "primary_keys st \<Longrightarrow> primary_keys (fst (updateOrder env oid quantity st))"
    by (auto simp: primary_keys_def updateOrder_def Let_def simp del: map_map
        split: option.splits list.splits)
qed

lemma primary_keys_deleteOrder:
  "primary_keys st \<Longrightarrow> primary_keys (fst (deleteOrder oid st))"
  by (auto simp: primary_keys_def deleteOrder_def distinct_map_filter)

lemma primary_keys_deleteAllOrders:
  "primary_keys st \<Longrightarrow> primary_keys (fst (deleteAllOrders st))"
  by (simp add: primary_keys_def deleteAllOrders_def)

section \<open>Evaluating the handlers\<close>

text \<open>The floor of a quotient of numerals, for \<open>toFixed2\<close> on concrete amounts.\<close>

lemma floor_rat_numeral: "\<lfloor>(numeral a / numeral b :: rat)\<rfloor> = numeral a div numeral b"
  by (metis floor_divide_of_int_eq of_int_numeral)

text \<open>The doubles that the examples below meet.\<close>

lemma double_of_values:
  "double_of 30 = 30"
  "double_of 50 = 50"
  "double_of (3 / 16) = 3 / 16"
  "double_of (19 / 100) = 3422735716801577 / 18014398509481984"
  by code_simp+

lemmas run_defs =
  plain_builtins_def empty_db_def widget_db_def dangling_db_def fraction_db_def report_db_def
  isNaN_def le_zero_def sql_eq_def sql_text_def next_rowid_def join_products_def Let_def
  toFixed2_def round2_def double_times_def floor_rat_numeral double_of_values

text \<open>
  \<open>round2\<close> is a multiple of 1/100 and is within half of 1/100 of its argument.
\<close>

lemma round2_hundredths: "\<exists>n. round2 x = of_int n / 100"
  by (auto simp: round2_def) (metis of_int_minus)

lemma round2_near: "\<bar>round2 x - x\<bar> \<le> 1 / 200"
proof (cases "x < 0")
  case False
  define n where "n = \<lfloor>x * 100 + 1 / 2\<rfloor>"
  have "of_int n \<le> x * 100 + 1 / 2" and "x * 100 + 1 / 2 < of_int n + 1"
    unfolding n_def by linarith+
  moreover from False have "round2 x = of_int n / 100" by (simp add: round2_def n_def)
  ultimately show ?thesis by linarith
next
  case True
  define n where "n = \<lfloor>- x * 100 + 1 / 2\<rfloor>"
  have "of_int n \<le> - x * 100 + 1 / 2" and "- x * 100 + 1 / 2 < of_int n + 1"
    unfolding n_def by linarith+
  moreover from True have "round2 x = - (of_int n / 100)" by (simp add: round2_def n_def)
  ultimately show ?thesis by linarith
qed

text \<open>
  The store with a dangling order is reached through the handlers alone: create a
  product, order it, delete the product.
\<close>

lemma widget_db_reached:
  "fst (createOrder plain_builtins 8 (JNum 1) (JNum 3)
     (fst (createProduct plain_builtins 7 (JStr ''Widget'') (JNum 10) empty_db))) = widget_db"
  by (simp add: createOrder_def createProduct_def run_defs)

lemma dangling_db_reached: "fst (deleteProduct 1 widget_db) = dangling_db"
  by (simp add: deleteProduct_def run_defs)

text \<open>
  The reports on the store with three products. A and B have the same revenue; A is
  first on the quantity. The order of the deleted product counts in the summary and is
  in no other answer.
\<close>

lemma topSellers_report_db:
  "topSellers report_db =
     Reply 200 (Some ''Top 5 best-selling products retrieved successfully'')
       \<lparr>l_data =
          [\<lparr>ts_id = 1, ts_name = ''A'', ts_price = 100, ts_total_quantity_sold = Some 10,
            ts_number_of_orders = 2, ts_total_revenue = 1000\<rparr>,
           \<lparr>ts_id = 2, ts_name = ''B'', ts_price = 200, ts_total_quantity_sold = Some 5,
            ts_number_of_orders = 1, ts_total_revenue = 1000\<rparr>],
        l_count = 2\<rparr>"
  by code_simp

lemma productPerformance_report_db:
  "productPerformance report_db =
     Reply 200 (Some ''Product performance data retrieved successfully'')
       \<lparr>l_data =
          [\<lparr>pp_id = 1, pp_name = ''A'', pp_price = 100, pp_total_sold = 10,
            pp_order_count = 2, pp_revenue = 1000\<rparr>,
           \<lparr>pp_id = 2, pp_name = ''B'', pp_price = 200, pp_total_sold = 5,
            pp_order_count = 1, pp_revenue = 1000\<rparr>,
           \<lparr>pp_id = 3, pp_name = ''C'', pp_price = 50, pp_total_sold = 0,
            pp_order_count = 0, pp_revenue = 0\<rparr>],
        l_count = 3\<rparr>"
  by code_simp

lemma listOrders_report_db:
  "listOrders report_db =
     Reply 200 None
       \<lparr>l_data =
          [\<lparr>ol_order_id = 3, ol_product_id = 1, ol_product_name = ''A'', ol_quantity = 6,
            ol_total_price = 600, ol_order_date = 13\<rparr>,
           \<lparr>ol_order_id = 2, ol_product_id = 2, ol_product_name = ''B'', ol_quantity = 5,
            ol_total_price = 1000, ol_order_date = 12\<rparr>,
           \<lparr>ol_order_id = 1, ol_product_id = 1, ol_product_name = ''A'', ol_quantity = 4,
            ol_total_price = 400, ol_order_date = 11\<rparr>],
        l_count = 3\<rparr>"
  by code_simp

lemma salesSummary_report_db:
  "salesSummary report_db =
     Reply 200 (Some ''Sales summary retrieved successfully'')
       \<lparr>ss_total_orders = 4, ss_total_items_sold = 17, ss_total_revenue = 2020,
        ss_average_order_value = 505, ss_first_order_date = Some 11,
        ss_last_order_date = Some 14\<rparr>"
  by code_simp

section \<open>Updating an order\<close>

text \<open>
  C1, as stated for every existing order, does not hold. The order below is in the
  ledger and its product has been deleted: the update with the valid quantity 6 is
  answered with 404 and the row keeps its quantity 3.
\<close>

theorem updateOrder_dangling_counterexample:
  "map o_order_id (orders dangling_db) = [1]
   \<and> updateOrder plain_builtins 1 (JNum 6) dangling_db = (dangling_db, Refuse 404 ''Order not found'')
   \<and> map o_quantity (orders (fst (updateOrder plain_builtins 1 (JNum 6) dangling_db))) = [3]"
  by (simp add: updateOrder_def run_defs)

text \<open>
  C1, amended. On a store whose ids are primary keys: for every existing order whose
  product still exists in the catalog, and every quantity that passes the validation
  with numeric value \<open>q > 0\<close>, \<open>updateOrder\<close> succeeds, rewrites that one row to quantity
  \<open>q\<close> and total price (the product's price now) times \<open>q\<close>, the product of the two
  doubles, leaves its order id, product id and order date and every other row as they
  were, and a following \<open>getOrder\<close> of the same id shows the stored values.
\<close>

theorem updateOrder_recomputes_total:
  assumes ok: "distinct (map o_order_id (orders st))" and pk: "distinct (map p_id (products st))"
    and ord: "ord \<in> set (orders st)"
    and p: "p \<in> set (products st)" "p_id p = o_product_id ord"
    and q: "truthy quantity" "to_number env quantity = Some q" "0 < q"
  shows "updateOrder env (o_order_id ord) quantity st =
           (st\<lparr>orders := map (\<lambda>r. if r = ord
                                    then ord\<lparr>o_quantity := q, o_total_price := double_times (p_price p) q\<rparr>
                                    else r) (orders st)\<rparr>,
            Reply 200 (Some ''Order updated successfully'')
              \<lparr>ou_order_id = o_order_id ord, ou_product_id = o_product_id ord,
               ou_quantity = parseInt env quantity, ou_total_price = toFixed2 (double_times (p_price p) q)\<rparr>)
       \<and> getOrder (o_order_id ord) (fst (updateOrder env (o_order_id ord) quantity st)) =
           Reply 200 None
             \<lparr>od_order_id = o_order_id ord, od_product_id = o_product_id ord,
              od_product_name = p_name p, od_unit_price = p_price p, od_quantity = q,
              od_total_price = double_times (p_price p) q, od_order_date = o_order_date ord\<rparr>"
proof -
  define ord' where "ord' = ord\<lparr>o_quantity := q, o_total_price := double_times (p_price p) q\<rparr>"
  define os' where "os' = map (\<lambda>r. if r = ord then ord' else r) (orders st)"
  have valid: "\<not> isNaN env quantity" "\<not> le_zero env quantity"
    using q by (simp_all add: isNaN_def le_zero_def)
  have found: "filter (\<lambda>op. o_order_id (fst op) = o_order_id ord)
      (join_products (orders st) (products st)) = [(ord, p)]"
    by (rule order_lookup [OF ok pk ord p])
  have rows: "map (\<lambda>r. if o_order_id r = o_order_id ord
        then r\<lparr>o_quantity := q, o_total_price := double_times (p_price p) q\<rparr> else r) (orders st) = os'"
    unfolding os'_def ord'_def by (rule update_one_row [OF ok ord])
  have upd: "updateOrder env (o_order_id ord) quantity st =
      (st\<lparr>orders := os'\<rparr>,
       Reply 200 (Some ''Order updated successfully'')
         \<lparr>ou_order_id = o_order_id ord, ou_product_id = o_product_id ord,
          ou_quantity = parseInt env quantity, ou_total_price = toFixed2 (double_times (p_price p) q)\<rparr>)"
    using q valid found rows by (simp add: updateOrder_def)
  have ids: "map o_order_id os' = map o_order_id (orders st)"
    by (simp add: os'_def ord'_def comp_def cong: map_cong)
  have ok': "distinct (map o_order_id os')" using ok ids by simp
  have mem': "ord' \<in> set os'" using ord by (auto simp: os'_def)
  have p': "p_id p = o_product_id ord'" using p by (simp add: ord'_def)
  have "filter (\<lambda>op. o_order_id (fst op) = o_order_id ord') (join_products os' (products st)) = [(ord', p)]"
    by (rule order_lookup [OF ok' pk mem' p(1) p'])
  then have get: "getOrder (o_order_id ord) (st\<lparr>orders := os'\<rparr>) =
      Reply 200 None
        \<lparr>od_order_id = o_order_id ord, od_product_id = o_product_id ord,
         od_product_name = p_name p, od_unit_price = p_price p, od_quantity = q,
         od_total_price = double_times (p_price p) q, od_order_date = o_order_date ord\<rparr>"
    by (simp add: getOrder_def ord'_def)
  from upd get show ?thesis by (simp add: os'_def ord'_def)
qed

theorem updateOrder_recomputes_total_witness:
  "updateOrder plain_builtins 1 (JNum 5) widget_db =
     (widget_db\<lparr>orders := [\<lparr>o_order_id = 1, o_product_id = 1, o_quantity = 5,
                              o_total_price = 50, o_order_date = 8\<rparr>]\<rparr>,
      Reply 200 (Some ''Order updated successfully'')
        \<lparr>ou_order_id = 1, ou_product_id = 1, ou_quantity = Some 5, ou_total_price = 50\<rparr>)
   \<and> getOrder 1 (fst (updateOrder plain_builtins 1 (JNum 5) widget_db)) =
       Reply 200 None
         \<lparr>od_order_id = 1, od_product_id = 1, od_product_name = ''Widget'', od_unit_price = 10,
          od_quantity = 5, od_total_price = 50, od_order_date = 8\<rparr>"
proof -
  define ord where
    "ord = \<lparr>o_order_id = 1, o_product_id = 1, o_quantity = 3, o_total_price = 30, o_order_date = 8\<rparr>"
  define p where "p = \<lparr>p_id = 1, p_name = ''Widget'', p_price = 10, p_created_at = 7\<rparr>"
  have ok: "distinct (map o_order_id (orders widget_db))"
    and pk: "distinct (map p_id (products widget_db))"
    and ord: "ord \<in> set (orders widget_db)"
    and p: "p \<in> set (products widget_db)" "p_id p = o_product_id ord"
    and q: "truthy (JNum 5)" "to_number plain_builtins (JNum 5) = Some 5" "(0::rat) < 5"
    by (simp_all add: widget_db_def ord_def p_def)
  note t = updateOrder_recomputes_total [OF ok pk ord p q]
  from t [THEN conjunct1] have upd: "updateOrder plain_builtins 1 (JNum 5) widget_db =
     (widget_db\<lparr>orders := [\<lparr>o_order_id = 1, o_product_id = 1, o_quantity = 5,
                              o_total_price = 50, o_order_date = 8\<rparr>]\<rparr>,
      Reply 200 (Some ''Order updated successfully'')
        \<lparr>ou_order_id = 1, ou_product_id = 1, ou_quantity = Some 5, ou_total_price = 50\<rparr>)"
    by (simp add: ord_def p_def run_defs)
  from t [THEN conjunct2] have "getOrder 1 (fst (updateOrder plain_builtins 1 (JNum 5) widget_db)) =
       Reply 200 None
         \<lparr>od_order_id = 1, od_product_id = 1, od_product_name = ''Widget'', od_unit_price = 10,
          od_quantity = 5, od_total_price = 50, od_order_date = 8\<rparr>"
    by (simp add: ord_def p_def double_times_def double_of_values)
  with upd show ?thesis by (rule conjI)
qed

section \<open>The total price in the answers\<close>

text \<open>
  The repository's own test orders 3 at 99.99: the row holds the double product
  299.96999999999997 and the answer says 299.97. At 0.005 the double product of 3 is
  just below 0.015 and the answer is 0.01.
\<close>

lemma total_of_three_at_99_99:
  "double_times (double_of (9999 / 100)) 3 = 5277128047743467 / 17592186044416"
  "toFixed2 (double_times (double_of (9999 / 100)) 3) = double_of (29997 / 100)"
  by code_simp+

lemma total_of_three_at_0_005:
  "toFixed2 (double_times (double_of (5 / 1000)) 3) = double_of (1 / 100)"
  by code_simp

lemma order_of_three_at_99_99:
  "map o_total_price
     (orders (fst (createOrder plain_builtins 8 (JNum 1) (JNum 3)
        (fst (createProduct plain_builtins 7 (JStr ''Test Product'') (json_number (9999 / 100))
           empty_db))))) = [5277128047743467 / 17592186044416]"
  "snd (createOrder plain_builtins 8 (JNum 1) (JNum 3)
     (fst (createProduct plain_builtins 7 (JStr ''Test Product'') (json_number (9999 / 100))
        empty_db))) =
   Reply 201 (Some ''Order created successfully'')
     \<lparr>oc_order_id = 1, oc_product_id = JNum 1, oc_product_name = ''Test Product'',
      oc_quantity = JNum 3, oc_total_price = double_of (29997 / 100), oc_order_date = 8\<rparr>"
  by code_simp+

text \<open>
  C2, as stated, does not hold: the answer to a successful \<open>createOrder\<close> carries the
  total rounded to two decimals. Three items at 0.0625 are stored as 0.1875 and
  answered as 0.19.
\<close>

theorem createOrder_total_rounded_counterexample:
  "createOrder plain_builtins 9 (JNum 1) (JNum 3) fraction_db =
     (fraction_db\<lparr>orders := orders fraction_db @
                      [\<lparr>o_order_id = 2, o_product_id = 1, o_quantity = 3,
                        o_total_price = 3 / 16, o_order_date = 9\<rparr>],
                  orders_seq := 2\<rparr>,
      Reply 201 (Some ''Order created successfully'')
        \<lparr>oc_order_id = 2, oc_product_id = JNum 1, oc_product_name = ''Widget'',
         oc_quantity = JNum 3, oc_total_price = double_of (19 / 100), oc_order_date = 9\<rparr>)
   \<and> double_of (19 / 100) \<noteq> 3 / 16"
  by (simp add: createOrder_def run_defs)

text \<open>
  C2, amended. For every successful \<open>createOrder\<close> and \<open>updateOrder\<close> whose product of
  price and quantity is within the range of doubles: the order row is written (appended
  by the one, rewritten in place by the other) with the double product of the price and
  the quantity, unrounded, and the total price in the answer is that stored total
  rounded to two decimals, \<open>parseFloat(total.toFixed(2))\<close>.
\<close>

theorem order_response_total_rounded:
  assumes "\<forall>p\<in>set (products st). \<forall>q. to_number env quantity = Some q \<longrightarrow> in_double_range (p_price p * q)"
  shows
  "(createOrder env now product_id quantity st = (st1, Reply c1 m1 d1) \<longrightarrow>
      (\<exists>p q. p \<in> set (products st) \<and> sql_eq env (p_id p) product_id
         \<and> to_number env quantity = Some q
         \<and> orders st1 = orders st @
             [\<lparr>o_order_id = oc_order_id d1, o_product_id = p_id p, o_quantity = q,
               o_total_price = double_times (p_price p) q, o_order_date = now\<rparr>]
         \<and> oc_total_price d1 = toFixed2 (double_times (p_price p) q)))
   \<and> (updateOrder env oid quantity st = (st2, Reply c2 m2 d2) \<longrightarrow>
      (\<exists>ord p q. (ord, p) \<in> set (join_products (orders st) (products st))
         \<and> o_order_id ord = oid \<and> to_number env quantity = Some q
         \<and> orders st2 =
             map (\<lambda>r. if o_order_id r = oid
                       then r\<lparr>o_quantity := q, o_total_price := double_times (p_price p) q\<rparr>
                       else r) (orders st)
         \<and> ord\<lparr>o_quantity := q, o_total_price := double_times (p_price p) q\<rparr> \<in> set (orders st2)
         \<and> ou_total_price d2 = toFixed2 (double_times (p_price p) q)))"
proof (intro conjI impI)
  assume a: "createOrder env now product_id quantity st = (st1, Reply c1 m1 d1)"
  then obtain p q where f: "find (\<lambda>p. sql_eq env (p_id p) product_id) (products st) = Some p"
    and q: "to_number env quantity = Some q"
    by (auto simp: createOrder_def split: if_splits option.splits)
  from f have p: "p \<in> set (products st)" "sql_eq env (p_id p) product_id"
    by (auto simp: find_Some_iff)
  from a f q have "oc_total_price d1 = toFixed2 (double_times (p_price p) q)"
    and "orders st1 = orders st @
       [\<lparr>o_order_id = oc_order_id d1, o_product_id = p_id p, o_quantity = q,
         o_total_price = double_times (p_price p) q, o_order_date = now\<rparr>]"
    by (auto simp: createOrder_def Let_def split: if_splits)
  with p q show "\<exists>p q. p \<in> set (products st) \<and> sql_eq env (p_id p) product_id
         \<and> to_number env quantity = Some q
         \<and> orders st1 = orders st @
             [\<lparr>o_order_id = oc_order_id d1, o_product_id = p_id p, o_quantity = q,
               o_total_price = double_times (p_price p) q, o_order_date = now\<rparr>]
         \<and> oc_total_price d1 = toFixed2 (double_times (p_price p) q)"
    by (intro exI [of _ p] exI [of _ q]) simp
next
  assume a: "updateOrder env oid quantity st = (st2, Reply c2 m2 d2)"
  then obtain ord p rest q where
    f: "filter (\<lambda>op. o_order_id (fst op) = oid) (join_products (orders st) (products st)) = (ord, p) # rest"
    and q: "to_number env quantity = Some q"
    by (auto simp: updateOrder_def split: if_splits list.splits option.splits)
  from f have "(ord, p) \<in> set (filter (\<lambda>op. o_order_id (fst op) = oid) (join_products (orders st) (products st)))"
    by simp
  then have m: "(ord, p) \<in> set (join_products (orders st) (products st))" "o_order_id ord = oid"
    by auto
  from m(1) have mem: "ord \<in> set (orders st)" by (auto dest: fst_join_products)
  from a f q have t: "ou_total_price d2 = toFixed2 (double_times (p_price p) q)"
    and o: "orders st2 = map (\<lambda>r. if o_order_id r = oid
           then r\<lparr>o_quantity := q, o_total_price := double_times (p_price p) q\<rparr> else r) (orders st)"
    by (auto simp: updateOrder_def Let_def split: if_splits)
  from mem m(2) have "ord\<lparr>o_quantity := q, o_total_price := double_times (p_price p) q\<rparr> \<in> set (orders st2)"
    unfolding o by (auto simp: image_iff intro!: bexI [of _ ord])
  with m q t o show "\<exists>ord p q. (ord, p) \<in> set (join_products (orders st) (products st))
         \<and> o_order_id ord = oid \<and> to_number env quantity = Some q
         \<and> orders st2 =
             map (\<lambda>r. if o_order_id r = oid
                       then r\<lparr>o_quantity := q, o_total_price := double_times (p_price p) q\<rparr>
                       else r) (orders st)
         \<and> ord\<lparr>o_quantity := q, o_total_price := double_times (p_price p) q\<rparr> \<in> set (orders st2)
         \<and> ou_total_price d2 = toFixed2 (double_times (p_price p) q)"
    by (intro exI [of _ ord] exI [of _ p] exI [of _ q]) simp
qed

theorem order_response_total_rounded_witness:
  "(\<exists>p q. p \<in> set (products fraction_db) \<and> sql_eq plain_builtins (p_id p) (JNum 1)
       \<and> to_number plain_builtins (JNum 3) = Some q
       \<and> orders (fst (createOrder plain_builtins 9 (JNum 1) (JNum 3) fraction_db)) =
           orders fraction_db @
             [\<lparr>o_order_id = 2, o_product_id = p_id p, o_quantity = q,
               o_total_price = double_times (p_price p) q, o_order_date = 9\<rparr>]
       \<and> double_of (19 / 100) = toFixed2 (double_times (p_price p) q))
   \<and> (\<exists>ord p q. (ord, p) \<in> set (join_products (orders fraction_db) (products fraction_db))
       \<and> o_order_id ord = 1 \<and> to_number plain_builtins (JNum 3) = Some q
       \<and> orders (fst (updateOrder plain_builtins 1 (JNum 3) fraction_db)) =
           map (\<lambda>r. if o_order_id r = 1
                     then r\<lparr>o_quantity := q, o_total_price := double_times (p_price p) q\<rparr>
                     else r) (orders fraction_db)
       \<and> ord\<lparr>o_quantity := q, o_total_price := double_times (p_price p) q\<rparr>
           \<in> set (orders (fst (updateOrder plain_builtins 1 (JNum 3) fraction_db)))
       \<and> double_of (19 / 100) = toFixed2 (double_times (p_price p) q))"
proof -
  define st1 where "st1 = fst (createOrder plain_builtins 9 (JNum 1) (JNum 3) fraction_db)"
  define d1 where
    "d1 = \<lparr>oc_order_id = 2, oc_product_id = JNum 1, oc_product_name = ''Widget'',
           oc_quantity = JNum 3, oc_total_price = double_of (19 / 100), oc_order_date = 9\<rparr>"
  define st2 where "st2 = fst (updateOrder plain_builtins 1 (JNum 3) fraction_db)"
  define d2 where
    "d2 = \<lparr>ou_order_id = 1, ou_product_id = 1, ou_quantity = Some 3,
           ou_total_price = double_of (19 / 100)\<rparr>"
  have rng: "\<forall>p\<in>set (products fraction_db).
      \<forall>q. to_number plain_builtins (JNum 3) = Some q \<longrightarrow> in_double_range (p_price p * q)"
    by (simp add: fraction_db_def in_double_range_def pow2_def)
  have c: "createOrder plain_builtins 9 (JNum 1) (JNum 3) fraction_db =
      (st1, Reply 201 (Some ''Order created successfully'') d1)"
    by (simp add: st1_def d1_def createOrder_def run_defs)
  have u: "updateOrder plain_builtins 1 (JNum 3) fraction_db =
      (st2, Reply 200 (Some ''Order updated successfully'') d2)"
    by (simp add: st2_def d2_def updateOrder_def run_defs)
  note t = order_response_total_rounded
    [OF rng, of 9 "JNum 1" st1 201 "Some ''Order created successfully''" d1 1 st2 200
        "Some ''Order updated successfully''" d2]
  from t [THEN conjunct1] c t [THEN conjunct2] u show ?thesis
    by (simp add: d1_def d2_def st1_def [symmetric] st2_def [symmetric])
qed

section \<open>Validation of a new order\<close>

text \<open>
  C3. A request for a new order whose quantity is the number 0 is answered with the
  message for a missing field, not with the message for a quantity that is not positive:
  \<open>!quantity\<close> holds for 0, so the first check answers before the second is reached. The
  store is not touched.
\<close>

theorem createOrder_zero_quantity:
  "createOrder env now product_id (JNum 0) st =
     (st, Refuse 400 ''Product ID and quantity are required'')"
  by (simp add: createOrder_def)

theorem createOrder_zero_quantity_witness:
  "createOrder plain_builtins 0 (JNum 1) (JNum 0) widget_db =
     (widget_db, Refuse 400 ''Product ID and quantity are required'')"
  by (rule createOrder_zero_quantity)

text \<open>
  Every other numeric quantity that is not positive does reach the second check.
\<close>

lemma createOrder_negative_quantity:
  "truthy product_id \<Longrightarrow> r < 0 \<Longrightarrow>
   createOrder env now product_id (JNum r) st = (st, Refuse 400 ''Quantity must be greater than 0'')"
  by (simp add: createOrder_def isNaN_def le_zero_def)

text \<open>So does the string \<open>"0"\<close>, which is truthy, in a runtime that reads it as 0.\<close>

lemma createOrder_zero_string:
  "truthy product_id \<Longrightarrow> str_number env ''0'' = Some 0 \<Longrightarrow>
   createOrder env now product_id (JStr ''0'') st = (st, Refuse 400 ''Quantity must be greater than 0'')"
  by (simp add: createOrder_def isNaN_def le_zero_def)

section \<open>Top sellers\<close>

text \<open>
  C4. On a store whose product ids are a primary key, \<open>topSellers\<close> answers with at most
  5 rows, in non-increasing order of the total quantity sold; each row is a product of
  the catalog with the sum of the quantities of its orders, which is positive; so a
  product that sold nothing is in no row.
\<close>

theorem topSellers_at_most_five_positive_sorted:
  assumes pk: "distinct (map p_id (products st))"
  shows "\<exists>rows. topSellers st =
           Reply 200 (Some ''Top 5 best-selling products retrieved successfully'') (listing rows)
         \<and> length rows \<le> 5
         \<and> sorted_wrt (\<lambda>a b. ts_total_quantity_sold b \<le> ts_total_quantity_sold a) rows
         \<and> sorted_wrt (\<lambda>a b. quantity_sold st (ts_id b) \<le> quantity_sold st (ts_id a)) rows
         \<and> (\<forall>r\<in>set rows. ts_id r \<in> p_id ` set (products st)
               \<and> ts_total_quantity_sold r = Some (quantity_sold st (ts_id r))
               \<and> 0 < quantity_sold st (ts_id r))
         \<and> (\<forall>p\<in>set (products st). quantity_sold st (p_id p) = 0 \<longrightarrow> p_id p \<notin> ts_id ` set rows)"
proof -
  define having where
    "having = (\<lambda>r::top_seller_row. case tr_total_quantity_sold r of None \<Rightarrow> False | Some t \<Rightarrow> 0 < t)"
  define groups where
    "groups = map (\<lambda>p. top_seller_row_of (group_key p, joined_orders (orders st) p)) (products st)"
  define Q where "Q = top_sellers_query st"
  define fmt where
    "fmt = (\<lambda>row::top_seller_row. \<lparr>ts_id = tr_id row, ts_name = tr_name row, ts_price = toFixed2 (tr_price row),
               ts_total_quantity_sold = tr_total_quantity_sold row,
               ts_number_of_orders = tr_number_of_orders row,
               ts_total_revenue = toFixed2 (coalesce (tr_total_revenue row) 0)\<rparr>)"
  have Q: "Q = take 5 (order_by_desc tr_total_quantity_sold (filter having groups))"
    by (simp add: Q_def top_sellers_query_def group_by_left_join [OF pk] having_def groups_def comp_def)
  have member: "r \<in> set groups \<and> having r" if "r \<in> set Q" for r
  proof -
    from that have "r \<in> set (order_by_desc tr_total_quantity_sold (filter having groups))"
      unfolding Q by (rule in_set_takeD)
    then show ?thesis by (simp add: set_order_by_desc)
  qed
  have row: "tr_id r \<in> p_id ` set (products st)
      \<and> tr_total_quantity_sold r = Some (quantity_sold st (tr_id r))
      \<and> 0 < quantity_sold st (tr_id r) \<and> tr_total_revenue r \<noteq> None" if "r \<in> set Q" for r
  proof -
    from member [OF that] obtain p where p: "p \<in> set (products st)"
      and r: "r = top_seller_row_of (group_key p, joined_orders (orders st) p)" and h: "having r"
      by (auto simp: groups_def)
    from r have id: "tr_id r = p_id p" by (simp add: top_seller_row_of_joined)
    from h r have ne: "orders_of st (p_id p) \<noteq> []"
      by (auto simp: having_def top_seller_row_of_joined split: if_splits)
    with h r have pos: "0 < quantity_sold st (p_id p)"
      by (simp add: having_def top_seller_row_of_joined)
    from p id ne pos r show ?thesis by (simp add: top_seller_row_of_joined)
  qed
  have "top_seller_of r = Some (fmt r)" if "r \<in> set Q" for r
    using row [OF that] by (auto simp: top_seller_of_def fmt_def coalesce_def)
  then have "map top_seller_of Q = map (\<lambda>r. Some (fmt r)) Q" by simp
  then have "those (map top_seller_of Q) = Some (map fmt Q)"
    by (simp only: those_map_Some)
  then have reply: "topSellers st =
      Reply 200 (Some ''Top 5 best-selling products retrieved successfully'') (listing (map fmt Q))"
    by (simp add: topSellers_def Q_def [symmetric])
  have len: "length (map fmt Q) \<le> 5" by (simp add: Q)
  have "sorted_wrt (\<lambda>a b. tr_total_quantity_sold b \<le> tr_total_quantity_sold a) Q"
    unfolding Q by (rule sorted_wrt_take) (rule sorted_order_by_desc)
  then have sorted: "sorted_wrt (\<lambda>a b. ts_total_quantity_sold b \<le> ts_total_quantity_sold a) (map fmt Q)"
    by (simp add: sorted_wrt_map fmt_def)
  have rows: "\<forall>r\<in>set (map fmt Q). ts_id r \<in> p_id ` set (products st)
      \<and> ts_total_quantity_sold r = Some (quantity_sold st (ts_id r))
      \<and> 0 < quantity_sold st (ts_id r)"
    using row by (auto simp: fmt_def)
  then have none: "\<forall>p\<in>set (products st). quantity_sold st (p_id p) = 0 \<longrightarrow> p_id p \<notin> ts_id ` set (map fmt Q)"
    by (metis imageE less_irrefl)
  have sorted': "sorted_wrt (\<lambda>a b. quantity_sold st (ts_id b) \<le> quantity_sold st (ts_id a)) (map fmt Q)"
  proof (rule sorted_wrt_mono_rel [OF _ sorted])
    fix a b
    assume a: "a \<in> set (map fmt Q)" and b: "b \<in> set (map fmt Q)"
      and le: "ts_total_quantity_sold b \<le> ts_total_quantity_sold a"
    from rows a have "ts_total_quantity_sold a = Some (quantity_sold st (ts_id a))" by blast
    moreover from rows b have "ts_total_quantity_sold b = Some (quantity_sold st (ts_id b))" by blast
    ultimately show "quantity_sold st (ts_id b) \<le> quantity_sold st (ts_id a)" using le by simp
  qed
  from reply len sorted sorted' rows none show ?thesis by blast
qed

theorem topSellers_at_most_five_positive_sorted_witness:
  "distinct (map p_id (products report_db))
   \<and> (\<exists>rows. topSellers report_db =
           Reply 200 (Some ''Top 5 best-selling products retrieved successfully'') (listing rows)
         \<and> length rows \<le> 5
         \<and> sorted_wrt (\<lambda>a b. ts_total_quantity_sold b \<le> ts_total_quantity_sold a) rows
         \<and> sorted_wrt (\<lambda>a b. quantity_sold report_db (ts_id b) \<le> quantity_sold report_db (ts_id a)) rows
         \<and> (\<forall>r\<in>set rows. ts_id r \<in> p_id ` set (products report_db)
               \<and> ts_total_quantity_sold r = Some (quantity_sold report_db (ts_id r))
               \<and> 0 < quantity_sold report_db (ts_id r))
         \<and> (\<forall>p\<in>set (products report_db).
               quantity_sold report_db (p_id p) = 0 \<longrightarrow> p_id p \<notin> ts_id ` set rows))"
proof -
  have pk: "distinct (map p_id (products report_db))" by (simp add: report_db_def)
  from pk topSellers_at_most_five_positive_sorted [OF pk] show ?thesis by (rule conjI)
qed

section \<open>Sales summary\<close>

text \<open>
  C5. With no order in the ledger, \<open>salesSummary\<close> answers 200 with the four numeric
  fields 0 and the two dates null.
\<close>

theorem salesSummary_no_orders:
  "orders st = [] \<Longrightarrow>
   salesSummary st =
     Reply 200 (Some ''Sales summary retrieved successfully'')
       \<lparr>ss_total_orders = 0, ss_total_items_sold = 0, ss_total_revenue = 0,
        ss_average_order_value = 0, ss_first_order_date = None, ss_last_order_date = None\<rparr>"
  by (simp add: salesSummary_def sql_sum_def sql_avg_def sql_min_def sql_max_def non_null_def
      or_zero_def fixed_or_zero_def)

theorem salesSummary_no_orders_witness:
  "salesSummary empty_db =
     Reply 200 (Some ''Sales summary retrieved successfully'')
       \<lparr>ss_total_orders = 0, ss_total_items_sold = 0, ss_total_revenue = 0,
        ss_average_order_value = 0, ss_first_order_date = None, ss_last_order_date = None\<rparr>"
  using salesSummary_no_orders [of empty_db] by (simp add: empty_db_def)

section \<open>Product performance\<close>

text \<open>
  C6. On a store whose product ids are a primary key, \<open>productPerformance\<close> answers with
  one row for each product and no limit: the rows are the performance rows of the
  products, in non-increasing order of the quantity sold, and a product without orders
  has a row with 0 sold, 0 orders and 0 revenue.
\<close>

theorem productPerformance_all_products:
  assumes pk: "distinct (map p_id (products st))"
  shows "\<exists>rows. productPerformance st =
           Reply 200 (Some ''Product performance data retrieved successfully'') (listing rows)
         \<and> mset rows = mset (map (performance_of st) (products st))
         \<and> length rows = length (products st)
         \<and> sorted_wrt (\<lambda>a b. pp_total_sold b \<le> pp_total_sold a) rows
         \<and> (\<forall>p\<in>set (products st). orders_of st (p_id p) = [] \<longrightarrow>
               \<lparr>pp_id = p_id p, pp_name = p_name p, pp_price = toFixed2 (p_price p),
                pp_total_sold = 0, pp_order_count = 0, pp_revenue = 0\<rparr> \<in> set rows)"
proof -
  define fmt where
    "fmt = (\<lambda>row::product_performance. row\<lparr>pp_price := toFixed2 (pp_price row), pp_revenue := toFixed2 (pp_revenue row)\<rparr>)"
  define raw where
    "raw = map (\<lambda>p. performance_row_of (group_key p, joined_orders (orders st) p)) (products st)"
  define rows where "rows = map fmt (order_by_desc pp_total_sold raw)"
  have reply: "productPerformance st =
      Reply 200 (Some ''Product performance data retrieved successfully'') (listing rows)"
    by (simp add: productPerformance_def group_by_left_join [OF pk] rows_def raw_def fmt_def comp_def)
  have fmt_raw: "map fmt raw = map (performance_of st) (products st)"
    by (simp add: raw_def fmt_def performance_row_of_joined performance_of_def)
  have "mset rows = mset (map fmt raw)"
    by (simp add: rows_def mset_order_by_desc)
  with fmt_raw have ms: "mset rows = mset (map (performance_of st) (products st))" by simp
  then have len: "length rows = length (products st)"
    by (metis length_map size_mset)
  have "sorted_wrt (\<lambda>a b. pp_total_sold b \<le> pp_total_sold a) (order_by_desc pp_total_sold raw)"
    by (rule sorted_order_by_desc)
  then have sorted: "sorted_wrt (\<lambda>a b. pp_total_sold b \<le> pp_total_sold a) rows"
    by (simp add: rows_def sorted_wrt_map fmt_def)
  have zero: "\<lparr>pp_id = p_id p, pp_name = p_name p, pp_price = toFixed2 (p_price p),
        pp_total_sold = 0, pp_order_count = 0, pp_revenue = 0\<rparr> \<in> set rows"
    if "p \<in> set (products st)" and "orders_of st (p_id p) = []" for p
  proof -
    from that have "performance_of st p \<in> set (map (performance_of st) (products st))" by simp
    then have "performance_of st p \<in> set rows" using ms by (metis set_mset_mset)
    with that show ?thesis by (simp add: performance_of_def toFixed2_0)
  qed
  from reply ms len sorted zero show ?thesis by blast
qed

theorem productPerformance_all_products_witness:
  "distinct (map p_id (products report_db))
   \<and> (\<exists>rows. productPerformance report_db =
           Reply 200 (Some ''Product performance data retrieved successfully'') (listing rows)
         \<and> mset rows = mset (map (performance_of report_db) (products report_db))
         \<and> length rows = length (products report_db)
         \<and> sorted_wrt (\<lambda>a b. pp_total_sold b \<le> pp_total_sold a) rows
         \<and> (\<forall>p\<in>set (products report_db). orders_of report_db (p_id p) = [] \<longrightarrow>
               \<lparr>pp_id = p_id p, pp_name = p_name p, pp_price = toFixed2 (p_price p),
                pp_total_sold = 0, pp_order_count = 0, pp_revenue = 0\<rparr> \<in> set rows))"
proof -
  have pk: "distinct (map p_id (products report_db))" by (simp add: report_db_def)
  from pk productPerformance_all_products [OF pk] show ?thesis by (rule conjI)
qed

section \<open>Validation of a new product\<close>

text \<open>
  C7. A price that is not a number is to be refused with 400. The JSON value \<open>true\<close> is
  not: \<open>!price\<close> is false, \<open>isNaN(true)\<close> is false and \<open>true <= 0\<close> is false, so the
  handler goes on to the INSERT with \<open>parseFloat(true)\<close>, which is \<open>NaN\<close>, and the answer
  is the 500 of the store. No row is written.
\<close>

theorem createProduct_true_price:
  "truthy name \<Longrightarrow>
   createProduct env now name (JBool True) st =
     (st, Storage_Error ''SQLITE_CONSTRAINT: NOT NULL constraint failed: Products.price'')"
  by (simp add: createProduct_def isNaN_def le_zero_def)

theorem createProduct_true_price_witness:
  "truthy (JStr ''Product'')
   \<and> createProduct plain_builtins 7 (JStr ''Product'') (JBool True) widget_db =
       (widget_db, Storage_Error ''SQLITE_CONSTRAINT: NOT NULL constraint failed: Products.price'')"
  using createProduct_true_price [of "JStr ''Product''" plain_builtins 7 widget_db] by simp

text \<open>
  On the other inputs of C7 the handler does answer 400 and leaves the store as it was:
  a name that is missing or empty, a price that is missing, that \<open>isNaN\<close> reads as not
  a number (a string such as \<open>"not-a-number"\<close>), or that is not positive.
\<close>

lemma createProduct_rejects_invalid:
  assumes "name = JUndefined \<or> name = JNull \<or> name = JStr [] \<or>
           price = JUndefined \<or> price = JNull \<or> isNaN env price \<or> le_zero env price"
  shows "createProduct env now name price st = (st, Refuse 400 ''Name and price are required'') \<or>
         createProduct env now name price st = (st, Refuse 400 ''Price must be a positive number'')"
proof (cases "truthy name \<and> truthy price")
  case False
  then show ?thesis by (simp add: createProduct_def)
next
  case True
  with assms have "isNaN env price \<or> le_zero env price" by auto
  with True show ?thesis by (simp add: createProduct_def)
qed


lemma createProduct_rejects_string:
  "createProduct plain_builtins 7 (JStr ''Product'') (JStr ''not-a-number'') widget_db =
     (widget_db, Refuse 400 ''Price must be a positive number'')"
  by (simp add: createProduct_def run_defs)

section \<open>Updating a product\<close>

text \<open>
  C8. \<open>updateProduct\<close> never changes the id or the creation time of a product row, nor
  any field of a row with another id, nor the orders and the counters; and for an
  existing product and an input that passes the validation it answers 200 and the rows
  with that id carry the new name and price.
\<close>

theorem updateProduct_frame:
  "\<exists>st' resp. updateProduct env pid name price st = (st', resp)
     \<and> length (products st') = length (products st)
     \<and> (\<forall>i<length (products st).
           p_id (products st' ! i) = p_id (products st ! i)
         \<and> p_created_at (products st' ! i) = p_created_at (products st ! i)
         \<and> (p_id (products st ! i) \<noteq> pid \<longrightarrow> products st' ! i = products st ! i))
     \<and> orders st' = orders st \<and> products_seq st' = products_seq st \<and> orders_seq st' = orders_seq st
     \<and> (truthy name \<and> truthy price \<and> \<not> isNaN env price \<and> \<not> le_zero env price
          \<and> pid \<in> p_id ` set (products st) \<longrightarrow>
        (\<forall>pr. parseFloat env price = Some pr \<longrightarrow>
           resp = Reply 200 (Some ''Product updated successfully'')
                    \<lparr>pe_id = pid, pe_name = name, pe_price = pr\<rparr>
         \<and> (\<forall>i<length (products st). p_id (products st ! i) = pid \<longrightarrow>
                p_name (products st' ! i) = sql_text env name \<and> p_price (products st' ! i) = pr)))"
  by (auto simp: updateProduct_def filter_empty_conv split: option.splits)

theorem updateProduct_frame_witness:
  "updateProduct plain_builtins 1 (JStr ''Gadget'') (JNum 12) report_db =
     (report_db\<lparr>products :=
        [\<lparr>p_id = 1, p_name = ''Gadget'', p_price = 12, p_created_at = 1\<rparr>,
         \<lparr>p_id = 2, p_name = ''B'', p_price = 200, p_created_at = 2\<rparr>,
         \<lparr>p_id = 3, p_name = ''C'', p_price = 50, p_created_at = 3\<rparr>]\<rparr>,
      Reply 200 (Some ''Product updated successfully'')
        \<lparr>pe_id = 1, pe_name = JStr ''Gadget'', pe_price = 12\<rparr>)"
  using updateProduct_frame [of plain_builtins 1 "JStr ''Gadget''" "JNum 12" report_db]
  by (simp add: updateProduct_def run_defs)

section \<open>Listing the orders\<close>

text \<open>
  C9. On a store whose product ids are a primary key, \<open>listOrders\<close> answers with exactly
  the rows of \<open>listed_orders\<close>: one for each order whose product is in the catalog, with
  the order's id, product id, quantity, total price and date and the name that product
  has now; they are in non-increasing order of the order id, and no row names a product
  that is not in the catalog.
\<close>

theorem listOrders_inner_join:
  assumes pk: "distinct (map p_id (products st))"
  shows "\<exists>rows. listOrders st = Reply 200 None (listing rows)
         \<and> mset rows = mset (listed_orders st)
         \<and> sorted_wrt (\<lambda>a b. ol_order_id b \<le> ol_order_id a) rows
         \<and> (\<forall>r\<in>set rows. ol_product_id r \<in> p_id ` set (products st))"
proof -
  define joined where "joined = join_products (orders st) (products st)"
  define rows where "rows = map order_listed_of (order_by_desc (\<lambda>op. o_order_id (fst op)) joined)"
  have reply: "listOrders st = Reply 200 None (listing rows)"
    by (simp add: listOrders_def rows_def joined_def)
  have "mset rows = mset (map order_listed_of joined)"
    by (simp add: rows_def mset_order_by_desc)
  then have ms: "mset rows = mset (listed_orders st)"
    by (simp add: joined_def map_listed_join [OF pk])
  have "sorted_wrt (\<lambda>a b. o_order_id (fst b) \<le> o_order_id (fst a))
      (order_by_desc (\<lambda>op. o_order_id (fst op)) joined)"
    by (rule sorted_order_by_desc)
  then have sorted: "sorted_wrt (\<lambda>a b. ol_order_id b \<le> ol_order_id a) rows"
    by (simp add: rows_def sorted_wrt_map order_listed_of_def)
  have "ol_product_id r \<in> p_id ` set (products st)" if "r \<in> set rows" for r
  proof -
    from that obtain ord p where "(ord, p) \<in> set joined" and "r = order_listed_of (ord, p)"
      by (auto simp: rows_def set_order_by_desc)
    then show ?thesis by (auto simp: joined_def join_products_def order_listed_of_def)
  qed
  with reply ms sorted show ?thesis by blast
qed

theorem listOrders_inner_join_witness:
  "distinct (map p_id (products report_db))
   \<and> (\<exists>rows. listOrders report_db = Reply 200 None (listing rows)
         \<and> mset rows = mset (listed_orders report_db)
         \<and> sorted_wrt (\<lambda>a b. ol_order_id b \<le> ol_order_id a) rows
         \<and> (\<forall>r\<in>set rows. ol_product_id r \<in> p_id ` set (products report_db)))"
proof -
  have pk: "distinct (map p_id (products report_db))" by (simp add: report_db_def)
  from pk listOrders_inner_join [OF pk] show ?thesis by (rule conjI)
qed

section \<open>Orders of a deleted product\<close>

text \<open>
  C10. If an order is in the ledger (whose order ids are a primary key) and no product
  has the id it names, \<open>getOrder\<close> of its id answers 404 "Order not found"; \<open>updateOrder\<close>
  of its id leaves the store as it was whatever the quantity, and answers 404 "Order not
  found" when the quantity passes the validation. The 404 is given although the order
  id is in the ledger.
\<close>

theorem dangling_order_not_found:
  assumes ok: "distinct (map o_order_id (orders st))" and ord: "ord \<in> set (orders st)"
    and gone: "\<forall>p\<in>set (products st). p_id p \<noteq> o_product_id ord"
  shows "getOrder (o_order_id ord) st = Refuse 404 ''Order not found''
       \<and> fst (updateOrder env (o_order_id ord) quantity st) = st
       \<and> (truthy quantity \<and> \<not> isNaN env quantity \<and> \<not> le_zero env quantity \<longrightarrow>
            snd (updateOrder env (o_order_id ord) quantity st) = Refuse 404 ''Order not found'')"
proof -
  from gone have "filter (\<lambda>p. o_product_id ord = p_id p) (products st) = []"
    by (auto simp: filter_empty_conv)
  with filter_join_by_order [OF ok ord, of "products st"]
  have "filter (\<lambda>op. o_order_id (fst op) = o_order_id ord)
      (join_products (orders st) (products st)) = []" by simp
  then show ?thesis by (simp add: getOrder_def updateOrder_def)
qed

theorem dangling_order_not_found_witness:
  "4 \<in> set (map o_order_id (orders report_db))
   \<and> getOrder 4 report_db = Refuse 404 ''Order not found''
   \<and> updateOrder plain_builtins 4 (JNum 7) report_db = (report_db, Refuse 404 ''Order not found'')"
  using dangling_order_not_found
    [of report_db
        "\<lparr>o_order_id = 4, o_product_id = 9, o_quantity = 2, o_total_price = 20, o_order_date = 14\<rparr>"
        plain_builtins "JNum 7"]
  by (simp add: run_defs prod_eq_iff)

end
